theory Spec2Isabelle
  imports Main "HOL-Library.Multiset"
begin

section \<open>The data access layer of \<open>backend/crud.py\<close>\<close>

text \<open>
  The module is a set of functions over a SQLAlchemy session. The session is modelled as
  an explicit store: one list of rows per table, in table order. Every function that
  writes takes the store and returns the new store together with its result; a raised
  \<open>HTTPException\<close> is the left summand of the result.

  The row classes (\<open>models.py\<close>) and the input schemas (\<open>schemas.py\<close>) are not part of
  the sources at hand. The records below carry the columns that \<open>crud.py\<close> reads or
  writes and those that the specification lists; columns are plain values except where
  the code or the specification makes them optional: \<open>Section.page_id\<close> and
  \<open>Media.section_id\<close>, the \<open>type\<close> of a section, which the code reads with
  \<open>data.get\<close>, and the \<open>title\<close> of a section, which neither the code nor the
  specification requires. A row is built from its input by \<open>Model(**input.dict())\<close>: it
  has the input's fields and the generated \<open>id\<close>. A filter on an optional column holds
  only for a value that is present, as SQL's comparison with \<open>NULL\<close> does.
\<close>

subsection \<open>Errors\<close>

datatype error = HTTPException nat string

text \<open>The specification's names for the four exceptions the module raises.\<close>

abbreviation Conflict :: error where
  "Conflict \<equiv> HTTPException 400 ''Email already registered''"

abbreviation Forbidden :: error where
  "Forbidden \<equiv> HTTPException 403 ''Old password is incorrect''"

abbreviation InvalidArgument_section :: error where
  "InvalidArgument_section \<equiv> HTTPException 400 ''Section type is required''"

abbreviation InvalidArgument_media :: error where
  "InvalidArgument_media \<equiv> HTTPException 400 ''Media title is required''"

abbreviation NotFound :: error where
  "NotFound \<equiv> HTTPException 404 ''Media item not found''"

subsection \<open>Rows and inputs\<close>

record User =
  u_id :: int
  u_email :: string
  u_password :: string

record UserCreate =
  uc_email :: string
  uc_password :: string

record Domain =
  d_id :: int
  d_user_id :: int

record DomainCreate =
  dc_user_id :: int

record Page =
  p_id :: int
  p_domain_id :: int
  p_title :: string
  p_hierarchy :: int

record Section =
  s_id :: int
  s_page_id :: "int option"
  s_type :: "string option"
  s_title :: "string option"

record SectionCreate =
  sc_page_id :: "int option"
  sc_type :: "string option"
  sc_title :: "string option"

record PageCreate =
  pc_domain_id :: int
  pc_title :: string
  pc_hierarchy :: int
  pc_sections :: "SectionCreate list"

record SEO =
  seo_id :: int
  seo_domain_id :: int

record SEOCreate =
  seoc_domain_id :: int

record Media =
  m_id :: int
  m_title :: string
  m_file_url :: string
  m_type :: string
  m_domain_id :: int
  m_section_id :: "int option"
  m_uploaded_by :: int
  m_text :: string

record MediaCreate =
  mc_title :: string
  mc_file_url :: string
  mc_type :: string
  mc_domain_id :: int
  mc_section_id :: "int option"
  mc_uploaded_by :: int
  mc_text :: string

record db =
  users :: "User list"
  domains :: "Domain list"
  pages :: "Page list"
  sections :: "Section list"
  seos :: "SEO list"
  medias :: "Media list"

definition empty_db :: db where
  "empty_db = \<lparr>users = [], domains = [], pages = [], sections = [], seos = [], medias = []\<rparr>"

text \<open>
  \<open>db.add; db.commit; db.refresh\<close> on a new object inserts a row whose integer primary
  key the database generates. The generated key is modelled as one more than the largest
  key of the table (1 for an empty table).
\<close>

definition next_id :: "int list \<Rightarrow> int" where
  "next_id ids = foldr max ids 0 + 1"

text \<open>\<open>query.first()\<close>: the first row that passes the filter, or \<open>None\<close>.\<close>

definition first :: "('a \<Rightarrow> bool) \<Rightarrow> 'a list \<Rightarrow> 'a option" where
  "first P rows = find P rows"

subsection \<open>Password hashing\<close>

text \<open>
  \<open>hash_password\<close> and \<open>verify_password\<close> call the bcrypt library, which is not part
  of the module: its two functions are parameters. \<open>bcrypt.gensalt()\<close> draws a random
  salt; the model takes the salt drawn as an argument. Strings are the byte strings that
  \<open>encode('utf-8')\<close> yields.
\<close>

record bcrypt =
  hashpw :: "string \<Rightarrow> string \<Rightarrow> string"
  checkpw :: "string \<Rightarrow> string \<Rightarrow> bool"

definition hash_password :: "bcrypt \<Rightarrow> string \<Rightarrow> string \<Rightarrow> string" where
  "hash_password B gensalt password = hashpw B password gensalt"

definition verify_password :: "bcrypt \<Rightarrow> string \<Rightarrow> string \<Rightarrow> bool" where
  "verify_password B plain_password hashed_password = checkpw B plain_password hashed_password"

subsection \<open>Users\<close>

definition create_user :: "bcrypt \<Rightarrow> string \<Rightarrow> db \<Rightarrow> UserCreate \<Rightarrow> db \<times> (error + User)" where
  "create_user B gensalt d user =
     (case first (\<lambda>u. u_email u = uc_email user) (users d) of
        Some existing_user \<Rightarrow> (d, Inl Conflict)
      | None \<Rightarrow>
          let db_user = \<lparr>u_id = next_id (map u_id (users d)),
                         u_email = uc_email user,
                         u_password = hash_password B gensalt (uc_password user)\<rparr>
          in (d\<lparr>users := users d @ [db_user]\<rparr>, Inr db_user))"

definition get_users :: "db \<Rightarrow> User list" where
  "get_users d = users d"

definition get_user :: "db \<Rightarrow> int \<Rightarrow> User option" where
  "get_user d user_id = first (\<lambda>u. u_id u = user_id) (users d)"

definition authenticate_user :: "bcrypt \<Rightarrow> db \<Rightarrow> string \<Rightarrow> string \<Rightarrow> User option" where
  "authenticate_user B d email password =
     (case first (\<lambda>u. u_email u = email) (users d) of
        None \<Rightarrow> None
      | Some user \<Rightarrow>
          if \<not> verify_password B password (u_password user) then None
          else Some user)"

text \<open>
  \<open>change_password\<close> receives a \<open>User\<close> object loaded through the session. Assigning
  \<open>user.password\<close> and committing rewrites the password column of the row with that
  primary key; \<open>db.refresh\<close> reloads the object from that row.
\<close>

definition change_password ::
    "bcrypt \<Rightarrow> string \<Rightarrow> db \<Rightarrow> User \<Rightarrow> string \<Rightarrow> string \<Rightarrow> db \<times> (error + User)" where
  "change_password B gensalt d user old_password new_password =
     (if \<not> verify_password B old_password (u_password user) then (d, Inl Forbidden)
      else
        let user' = user\<lparr>u_password := hash_password B gensalt new_password\<rparr>
        in (d\<lparr>users := map (\<lambda>u. if u_id u = u_id user
                                   then u\<lparr>u_password := u_password user'\<rparr> else u) (users d)\<rparr>,
            Inr user'))"

subsection \<open>Domains\<close>

definition create_domain :: "db \<Rightarrow> DomainCreate \<Rightarrow> db \<times> (error + Domain)" where
  "create_domain d domain =
     (let db_domain = \<lparr>d_id = next_id (map d_id (domains d)), d_user_id = dc_user_id domain\<rparr>
      in (d\<lparr>domains := domains d @ [db_domain]\<rparr>, Inr db_domain))"

definition get_domain :: "db \<Rightarrow> int \<Rightarrow> Domain option" where
  "get_domain d domain_id = first (\<lambda>domain. d_id domain = domain_id) (domains d)"

definition get_domains_by_user_id :: "db \<Rightarrow> int \<Rightarrow> Domain option" where
  "get_domains_by_user_id d user_id = first (\<lambda>domain. d_user_id domain = user_id) (domains d)"

subsection \<open>Sections\<close>

text \<open>
  \<open>if page_id:\<close> is Python truthiness on an argument whose default is \<open>None\<close>: the
  branch is taken for an integer other than 0. \<open>not data.get("type")\<close> holds for
  \<open>None\<close> and for the empty string.
\<close>

definition truthy_int :: "int option \<Rightarrow> bool" where
  "truthy_int x = (case x of None \<Rightarrow> False | Some n \<Rightarrow> n \<noteq> 0)"

definition truthy_str :: "string option \<Rightarrow> bool" where
  "truthy_str x = (case x of None \<Rightarrow> False | Some s \<Rightarrow> s \<noteq> [])"

definition create_section :: "db \<Rightarrow> SectionCreate \<Rightarrow> int option \<Rightarrow> db \<times> (error + Section)" where
  "create_section d sec page_id =
     (let data = (if truthy_int page_id then sec\<lparr>sc_page_id := page_id\<rparr> else sec)
      in if \<not> truthy_str (sc_type data) then (d, Inl InvalidArgument_section)
         else
           let db_section = \<lparr>s_id = next_id (map s_id (sections d)),
                              s_page_id = sc_page_id data,
                              s_type = sc_type data,
                              s_title = sc_title data\<rparr>
           in (d\<lparr>sections := sections d @ [db_section]\<rparr>, Inr db_section))"




subsection \<open>Pages\<close>

text \<open>
  \<open>create_page\<close> inserts the page and then creates each section of the input with the
  new page's id. A section that raises stops the loop; the page and the sections
  committed before it stay in the store.
\<close>

fun create_sections :: "db \<Rightarrow> SectionCreate list \<Rightarrow> int \<Rightarrow> db \<times> (error + unit)" where
  "create_sections d [] page_id = (d, Inr ())"
| "create_sections d (sec # secs) page_id =
     (case create_section d sec (Some page_id) of
        (d', Inl e) \<Rightarrow> (d', Inl e)
      | (d', Inr _) \<Rightarrow> create_sections d' secs page_id)"

definition create_page :: "db \<Rightarrow> PageCreate \<Rightarrow> db \<times> (error + Page)" where
  "create_page d page =
     (let db_page = \<lparr>p_id = next_id (map p_id (pages d)),
                      p_domain_id = pc_domain_id page,
                      p_title = pc_title page,
                      p_hierarchy = pc_hierarchy page\<rparr>;
          d1 = d\<lparr>pages := pages d @ [db_page]\<rparr>
      in case create_sections d1 (pc_sections page) (p_id db_page) of
           (d2, Inl e) \<Rightarrow> (d2, Inl e)
         | (d2, Inr _) \<Rightarrow> (d2, Inr db_page))"

definition get_page :: "db \<Rightarrow> int \<Rightarrow> Page option" where
  "get_page d page_id = first (\<lambda>p. p_id p = page_id) (pages d)"

text \<open>\<open>str\<close> of a Python integer: its decimal digits, with a minus sign when negative.\<close>

definition digit_char :: "nat \<Rightarrow> char" where
  "digit_char n = ''0123456789'' ! n"

fun str_nat :: "nat \<Rightarrow> string" where
  "str_nat n = (if n < 10 then [digit_char n]
                else str_nat (n div 10) @ [digit_char (n mod 10)])"

declare str_nat.simps [simp del]

definition str :: "int \<Rightarrow> string" where
  "str i = (if i < 0 then CHR ''-'' # str_nat (nat (- i)) else str_nat (nat i))"

text \<open>
  The query of \<open>get_pages_by_user_id\<close>, clause by clause: the left outer join of pages
  with sections on \<open>Page.id = Section.page_id\<close> (a page without sections gives one row
  with no section), the filter on the page's domain, the grouping by \<open>Page.id\<close> (each
  group keeps the page columns of its first row), \<open>count(Section.id)\<close> (the rows of the
  group that have a section), and the ordering by \<open>Page.hierarchy\<close>, ascending.
\<close>

definition outerjoin :: "Page list \<Rightarrow> Section list \<Rightarrow> (Page \<times> Section option) list" where
  "outerjoin ps ss =
     concat (map (\<lambda>p. case filter (\<lambda>s. s_page_id s = Some (p_id p)) ss of
                         [] \<Rightarrow> [(p, None)]
                       | m # ms \<Rightarrow> map (\<lambda>s. (p, Some s)) (m # ms)) ps)"

function group_by_page_id ::
    "(Page \<times> Section option) list \<Rightarrow> (Page \<times> Section option list) list" where
  "group_by_page_id [] = []"
| "group_by_page_id ((p, s) # rows) =
     (p, s # map snd (filter (\<lambda>r. p_id (fst r) = p_id p) rows)) #
     group_by_page_id (filter (\<lambda>r. p_id (fst r) \<noteq> p_id p) rows)"
  by pat_completeness auto
termination
  by (relation "measure length") (auto simp: less_Suc_eq_le)

definition count_section_id :: "Section option list \<Rightarrow> nat" where
  "count_section_id ss = length (filter (\<lambda>s. s \<noteq> None) ss)"

record PageSummary =
  ps_id :: string
  ps_title :: string
  ps_hierarchy :: int
  ps_sections :: nat

definition get_pages_by_user_id :: "db \<Rightarrow> int \<Rightarrow> PageSummary list" where
  "get_pages_by_user_id d user_id =
     (let domains' = filter (\<lambda>domain. d_user_id domain = user_id) (domains d);
          domain_ids = map d_id domains';
          joined = outerjoin (pages d) (sections d);
          filtered = filter (\<lambda>(p, s). p_domain_id p \<in> set domain_ids) joined;
          grouped = group_by_page_id filtered;
          rows = map (\<lambda>(p, ss). (p_id p, p_title p, p_hierarchy p, count_section_id ss)) grouped;
          results = sort_key (\<lambda>(i, t, h, c). h) rows
      in map (\<lambda>(i, t, h, c).
                \<lparr>ps_id = str i, ps_title = t, ps_hierarchy = h, ps_sections = c\<rparr>) results)"

text \<open>
  What the specification asks of the summary of one page, and which pages it asks for.
\<close>

definition page_summary :: "db \<Rightarrow> Page \<Rightarrow> PageSummary" where
  "page_summary d p =
     \<lparr>ps_id = str (p_id p), ps_title = p_title p, ps_hierarchy = p_hierarchy p,
      ps_sections = length (filter (\<lambda>s. s_page_id s = Some (p_id p)) (sections d))\<rparr>"

definition domain_owned_by :: "db \<Rightarrow> int \<Rightarrow> int \<Rightarrow> bool" where
  "domain_owned_by d domain_id user_id =
     (\<exists>domain \<in> set (domains d). d_user_id domain = user_id \<and> d_id domain = domain_id)"

subsection \<open>SEO\<close>

definition create_seo :: "db \<Rightarrow> SEOCreate \<Rightarrow> db \<times> (error + SEO)" where
  "create_seo d s =
     (let db_seo = \<lparr>seo_id = next_id (map seo_id (seos d)), seo_domain_id = seoc_domain_id s\<rparr>
      in (d\<lparr>seos := seos d @ [db_seo]\<rparr>, Inr db_seo))"

definition get_seo_by_domain :: "db \<Rightarrow> int \<Rightarrow> SEO option" where
  "get_seo_by_domain d domain_id = first (\<lambda>s. seo_domain_id s = domain_id) (seos d)"

subsection \<open>Media\<close>

definition create_media :: "db \<Rightarrow> MediaCreate \<Rightarrow> db \<times> (error + Media)" where
  "create_media d media =
     (if mc_title media = [] then (d, Inl InvalidArgument_media)
      else
        let db_media = \<lparr>m_id = next_id (map m_id (medias d)),
                         m_title = mc_title media,
                         m_file_url = mc_file_url media,
                         m_type = mc_type media,
                         m_domain_id = mc_domain_id media,
                         m_section_id = mc_section_id media,
                         m_uploaded_by = mc_uploaded_by media,
                         m_text = mc_text media\<rparr>
        in (d\<lparr>medias := medias d @ [db_media]\<rparr>, Inr db_media))"

definition get_media_by_section :: "db \<Rightarrow> int \<Rightarrow> Media list" where
  "get_media_by_section d section_id = filter (\<lambda>m. m_section_id m = Some section_id) (medias d)"

definition get_media_by_user :: "db \<Rightarrow> int \<Rightarrow> Media list" where
  "get_media_by_user d user_id = filter (\<lambda>m. m_uploaded_by m = user_id) (medias d)"

definition get_media_by_domain :: "db \<Rightarrow> int \<Rightarrow> Media list" where
  "get_media_by_domain d domain_id = filter (\<lambda>m. m_domain_id m = domain_id) (medias d)"

text \<open>
  The lookup that \<open>delete_media\<close> and \<open>update_media\<close> start with:
  \<open>db.query(models.Media).filter(models.Media.id == media_id).first()\<close>.
\<close>

definition media_by_id :: "db \<Rightarrow> int \<Rightarrow> Media option" where
  "media_by_id d media_id = first (\<lambda>m. m_id m = media_id) (medias d)"

text \<open>
  \<open>db.delete(media_item); db.commit()\<close> deletes from the table by primary key;
  assigning attributes of the loaded object and committing updates by primary key.
\<close>

definition delete_media :: "db \<Rightarrow> int \<Rightarrow> db \<times> (error + Media)" where
  "delete_media d media_id =
     (case media_by_id d media_id of
        None \<Rightarrow> (d, Inl NotFound)
      | Some media_item \<Rightarrow>
          (d\<lparr>medias := filter (\<lambda>m. m_id m \<noteq> m_id media_item) (medias d)\<rparr>, Inr media_item))"

definition update_media ::
    "db \<Rightarrow> int \<Rightarrow> string \<Rightarrow> string \<Rightarrow> int option \<Rightarrow> db \<times> (error + Media)" where
  "update_media d media_id title text' section_id =
     (case media_by_id d media_id of
        None \<Rightarrow> (d, Inl NotFound)
      | Some media_item \<Rightarrow>
          let media_item' = media_item\<lparr>m_title := title, m_text := text', m_section_id := section_id\<rparr>
          in (d\<lparr>medias := map (\<lambda>m. if m_id m = m_id media_item
                                     then m\<lparr>m_title := title, m_text := text',
                                            m_section_id := section_id\<rparr>
                                     else m) (medias d)\<rparr>,
              Inr media_item'))"

subsection \<open>Stores the module can build\<close>

text \<open>
  The writing functions of the module as one datatype of calls; \<open>run\<close> applies a
  sequence of calls to the empty store. A call that raises leaves the store as the
  function left it.
\<close>

datatype call =
    Create_user string UserCreate
  | Change_password string User string string
  | Create_domain DomainCreate
  | Create_page PageCreate
  | Create_section SectionCreate "int option"
  | Create_seo SEOCreate
  | Create_media MediaCreate
  | Delete_media int
  | Update_media int string string "int option"

fun step :: "bcrypt \<Rightarrow> db \<Rightarrow> call \<Rightarrow> db" where
  "step B d (Create_user gensalt user) = fst (create_user B gensalt d user)"
| "step B d (Change_password gensalt user old new) = fst (change_password B gensalt d user old new)"
| "step B d (Create_domain domain) = fst (create_domain d domain)"
| "step B d (Create_page page) = fst (create_page d page)"
| "step B d (Create_section sec page_id) = fst (create_section d sec page_id)"
| "step B d (Create_seo s) = fst (create_seo d s)"
| "step B d (Create_media media) = fst (create_media d media)"
| "step B d (Delete_media media_id) = fst (delete_media d media_id)"
| "step B d (Update_media media_id title text' section_id) =
     fst (update_media d media_id title text' section_id)"

definition run :: "bcrypt \<Rightarrow> call list \<Rightarrow> db" where
  "run B calls = foldl (step B) empty_db calls"

subsection \<open>Auxiliary notions and example stores\<close>

text \<open>The section columns that the outer join pairs with one page.\<close>

definition joined_sections :: "Section list \<Rightarrow> Page \<Rightarrow> Section option list" where
  "joined_sections ss p =
     (case filter (\<lambda>s. s_page_id s = Some (p_id p)) ss of
        [] \<Rightarrow> [None]
      | m # ms \<Rightarrow> map Some (m # ms))"

text \<open>
  A stand-in for bcrypt with which the functions can be evaluated: the hash is the salt,
  a separator and the password; a password verifies against a hash that ends with it.
\<close>

definition toy_bcrypt :: bcrypt where
  "toy_bcrypt = \<lparr>hashpw = (\<lambda>password salt. (salt @ ''$'') @ password),
                  checkpw = (\<lambda>password hashed. length password < length hashed \<and>
                     drop (length hashed - length password) hashed = password)\<rparr>"

text \<open>
  The store of the specification's example: user 7 owns domains 1 and 2, page 1
  (hierarchy 1) has two sections, page 2 (hierarchy 0) has none; domain 3 and its page
  belong to user 8.
\<close>

definition example_db :: db where
  "example_db =
     \<lparr>users = [\<lparr>u_id = 7, u_email = ''u@example.org'', u_password = ''salt$secret''\<rparr>],
      domains = [\<lparr>d_id = 1, d_user_id = 7\<rparr>, \<lparr>d_id = 2, d_user_id = 7\<rparr>,
                 \<lparr>d_id = 3, d_user_id = 8\<rparr>],
      pages = [\<lparr>p_id = 1, p_domain_id = 1, p_title = ''Home'', p_hierarchy = 1\<rparr>,
               \<lparr>p_id = 2, p_domain_id = 2, p_title = ''About'', p_hierarchy = 0\<rparr>,
               \<lparr>p_id = 3, p_domain_id = 3, p_title = ''Other'', p_hierarchy = 0\<rparr>],
      sections = [\<lparr>s_id = 1, s_page_id = Some 1, s_type = Some ''hero'', s_title = Some ''is''\<rparr>,
                  \<lparr>s_id = 2, s_page_id = Some 1, s_type = Some ''text'', s_title = Some ''Intro''\<rparr>,
                  \<lparr>s_id = 3, s_page_id = Some 3, s_type = Some ''text'', s_title = Some ''Else''\<rparr>],
      seos = [],
      medias = [\<lparr>m_id = 1, m_title = ''Logo'', m_file_url = ''/logo.png'', m_type = ''image'',
                  m_domain_id = 1, m_section_id = Some 1, m_uploaded_by = 7, m_text = ''logo''\<rparr>,
                \<lparr>m_id = 2, m_title = ''Banner'', m_file_url = ''/banner.png'', m_type = ''image'',
                  m_domain_id = 1, m_section_id = None, m_uploaded_by = 7, m_text = ''banner''\<rparr>]\<rparr>"

section \<open>Properties\<close>

subsection \<open>Queries\<close>

lemma first_None_iff: "first P rows = None \<longleftrightarrow> \<not> (\<exists>x \<in> set rows. P x)"
  by (auto simp: first_def find_None_iff)

lemma first_SomeD: "first P rows = Some x \<Longrightarrow> x \<in> set rows \<and> P x"
  by (auto simp: first_def find_Some_iff)

lemma owner_domain_ids_iff:
  "x \<in> set (map d_id (filter (\<lambda>domain. d_user_id domain = user_id) ds)) \<longleftrightarrow>
   (\<exists>domain \<in> set ds. d_user_id domain = user_id \<and> d_id domain = x)"
  by (induction ds) auto

subsection \<open>Sections of a page, for its owner\<close>




subsection \<open>Users and passwords\<close>



text \<open>
  C3. \<open>authenticate_user\<close> returns the user found by the email when the password
  verifies against that user's stored hash; it returns \<open>None\<close> when no user has the
  email and when the password does not verify. The result \<open>None\<close> says no more than
  that one of the two failures occurred.
\<close>

theorem authenticate_user_spec:
  "(\<forall>user. first (\<lambda>u. u_email u = email) (users d) = Some user \<and>
        verify_password B password (u_password user) \<longrightarrow>
      authenticate_user B d email password = Some user) \<and>
   (\<not> (\<exists>u \<in> set (users d). u_email u = email) \<longrightarrow>
      authenticate_user B d email password = None) \<and>
   (\<forall>user. first (\<lambda>u. u_email u = email) (users d) = Some user \<and>
        \<not> verify_password B password (u_password user) \<longrightarrow>
      authenticate_user B d email password = None) \<and>
   (authenticate_user B d email password = None \<longleftrightarrow>
      (\<not> (\<exists>u \<in> set (users d). u_email u = email) \<or>
       (\<exists>user. first (\<lambda>u. u_email u = email) (users d) = Some user \<and>
          \<not> verify_password B password (u_password user))))"
proof (cases "first (\<lambda>u. u_email u = email) (users d)")
  case None
  then have "\<not> (\<exists>u \<in> set (users d). u_email u = email)"
    by (simp add: first_None_iff)
  with None show ?thesis
    by (simp add: authenticate_user_def)
next
  case (Some user)
  from first_SomeD [OF Some] have "\<exists>u \<in> set (users d). u_email u = email"
    by blast
  with Some show ?thesis
    by (simp add: authenticate_user_def)
qed

theorem authenticate_user_witness:
  "authenticate_user toy_bcrypt example_db ''u@example.org'' ''secret'' =
     Some \<lparr>u_id = 7, u_email = ''u@example.org'', u_password = ''salt$secret''\<rparr> \<and>
   authenticate_user toy_bcrypt example_db ''u@example.org'' ''wrong'' = None \<and>
   authenticate_user toy_bcrypt example_db ''nobody@example.org'' ''secret'' = None"
  using authenticate_user_spec [of "''u@example.org''" example_db toy_bcrypt "''secret''"]
    authenticate_user_spec [of "''u@example.org''" example_db toy_bcrypt "''wrong''"]
    authenticate_user_spec [of "''nobody@example.org''" example_db toy_bcrypt "''secret''"]
  by (simp add: first_def example_db_def verify_password_def toy_bcrypt_def)

text \<open>
  C4. When the old password does not verify against the password of the user object,
  \<open>change_password\<close> raises the exception "Old password is incorrect" (status 403) and
  the store, with every stored hash, is the one it was given.
\<close>

theorem change_password_wrong_old:
  "\<not> verify_password B old_password (u_password user) \<Longrightarrow>
   change_password B gensalt d user old_password new_password = (d, Inl Forbidden)"
  by (simp add: change_password_def)

theorem change_password_wrong_old_witness:
  "\<not> verify_password toy_bcrypt ''wrong'' ''salt$secret'' \<and>
   change_password toy_bcrypt ''pepper'' example_db
       \<lparr>u_id = 7, u_email = ''u@example.org'', u_password = ''salt$secret''\<rparr> ''wrong'' ''next'' =
     (example_db, Inl Forbidden)"
proof -
  have h: "\<not> verify_password toy_bcrypt ''wrong''
      (u_password \<lparr>u_id = 7, u_email = ''u@example.org'', u_password = ''salt$secret''\<rparr>)"
    by (simp add: verify_password_def toy_bcrypt_def)
  from h change_password_wrong_old [OF h, of "''pepper''" example_db "''next''"]
  show ?thesis by simp
qed

subsection \<open>Page summaries of a user\<close>

lemma outerjoin_Nil: "outerjoin [] ss = []"
  by (simp add: outerjoin_def)

lemma outerjoin_Cons:
  "outerjoin (p # ps) ss = map (Pair p) (joined_sections ss p) @ outerjoin ps ss"
  by (simp add: outerjoin_def joined_sections_def split: list.splits)

lemma outerjoin_fst: "r \<in> set (outerjoin ps ss) \<Longrightarrow> fst r \<in> set ps"
  by (induction ps) (auto simp: outerjoin_Nil outerjoin_Cons)

lemma joined_sections_not_Nil: "joined_sections ss p \<noteq> []"
  by (simp add: joined_sections_def split: list.splits)

lemma count_joined_sections:
  "count_section_id (joined_sections ss p) =
   length (filter (\<lambda>s. s_page_id s = Some (p_id p)) ss)"
proof (cases "filter (\<lambda>s. s_page_id s = Some (p_id p)) ss")
  case Nil
  then show ?thesis by (simp add: count_section_id_def joined_sections_def)
next
  case (Cons m ms)
  have "filter (\<lambda>s. s \<noteq> None) (map Some (m # ms)) = map Some (m # ms)"
    by (simp add: filter_map comp_def del: list.map)
  with Cons show ?thesis by (simp add: count_section_id_def joined_sections_def)
qed

lemma filter_same_page:
  "filter (\<lambda>r. p_id (fst r) = p_id p) (map (Pair p) xs) = map (Pair p) xs"
  by (induction xs) auto

lemma filter_other_page:
  "filter (\<lambda>r. p_id (fst r) \<noteq> p_id p) (map (Pair p) xs) = []"
  by (induction xs) auto

text \<open>
  With page ids a primary key, the groups of the query are the pages that pass the
  filter, in table order, each with the sections the join gave it.
\<close>

lemma group_by_page_id_outerjoin:
  "distinct (map p_id ps) \<Longrightarrow>
   group_by_page_id (filter (\<lambda>(p, s). Q p) (outerjoin ps ss)) =
   map (\<lambda>p. (p, joined_sections ss p)) (filter Q ps)"
proof (induction ps)
  case Nil
  then show ?case by (simp add: outerjoin_Nil)
next
  case (Cons p ps)
  define F where "F = filter (\<lambda>(p, s). Q p) (outerjoin ps ss)"
  from Cons have IH: "group_by_page_id F = map (\<lambda>p. (p, joined_sections ss p)) (filter Q ps)"
    by (simp add: F_def)
  have other: "p_id (fst r) \<noteq> p_id p" if "r \<in> set F" for r
  proof -
    from that have "fst r \<in> set ps" by (auto simp: F_def dest: outerjoin_fst)
    then have "p_id (fst r) \<in> set (map p_id ps)" by simp
    with Cons.prems show ?thesis by auto
  qed
  have F_same: "filter (\<lambda>r. p_id (fst r) = p_id p) F = []"
    unfolding filter_empty_conv using other by blast
  have F_other: "filter (\<lambda>r. p_id (fst r) \<noteq> p_id p) F = F"
    unfolding filter_id_conv using other by blast
  show ?case
  proof (cases "Q p")
    case False
    then have "filter (\<lambda>(p, s). Q p) (outerjoin (p # ps) ss) = F"
      by (simp add: outerjoin_Cons filter_empty_conv F_def)
    with False IH show ?thesis by simp
  next
    case True
    obtain x xs where js: "joined_sections ss p = x # xs"
      using joined_sections_not_Nil [of ss p] by (cases "joined_sections ss p") auto
    from True have "filter (\<lambda>(p, s). Q p) (outerjoin (p # ps) ss) =
        (p, x) # (map (Pair p) xs @ F)"
      by (simp add: outerjoin_Cons js filter_id_conv F_def)
    then have "group_by_page_id (filter (\<lambda>(p, s). Q p) (outerjoin (p # ps) ss)) =
        (p, x # xs) # group_by_page_id F"
      by (simp add: filter_same_page filter_other_page F_same F_other comp_def)
    with True IH js show ?thesis by simp
  qed
qed

lemma get_pages_by_user_id_eq:
  assumes "distinct (map p_id (pages d))"
  shows "get_pages_by_user_id d user_id =
    map (\<lambda>(i, t, h, c). \<lparr>ps_id = str i, ps_title = t, ps_hierarchy = h, ps_sections = c\<rparr>)
      (sort_key (\<lambda>(i, t, h, c). h)
        (map (\<lambda>p. (p_id p, p_title p, p_hierarchy p,
                    length (filter (\<lambda>s. s_page_id s = Some (p_id p)) (sections d))))
          (filter (\<lambda>p. domain_owned_by d (p_domain_id p) user_id) (pages d))))"
  unfolding get_pages_by_user_id_def Let_def owner_domain_ids_iff
    group_by_page_id_outerjoin [OF assms]
  by (simp add: comp_def count_joined_sections domain_owned_by_def)

lemma sorted_summaries:
  "sorted (map ps_hierarchy
     (map (\<lambda>(i, t, h, c). \<lparr>ps_id = str i, ps_title = t, ps_hierarchy = h, ps_sections = c\<rparr>)
        (sort_key (\<lambda>(i, t, h, c). h) rows)))"
proof -
  have "ps_hierarchy \<circ>
      (\<lambda>(i, t, h, c). \<lparr>ps_id = str i, ps_title = t, ps_hierarchy = h, ps_sections = c\<rparr>) =
      (\<lambda>(i, t, h, c). h)"
    by (auto simp: fun_eq_iff)
  then show ?thesis
    unfolding map_map by (simp only: sorted_sort_key)
qed

text \<open>
  C5. With page ids a primary key, \<open>get_pages_by_user_id\<close> returns one summary for
  each page whose domain the user owns and nothing else (as multisets, the result is the
  image of those pages under \<open>page_summary\<close>: id, title, hierarchy and the number of
  sections whose \<open>page_id\<close> is the page, 0 when there are none), and the result is in
  ascending order of hierarchy.
\<close>

theorem get_pages_by_user_id_spec:
  assumes "distinct (map p_id (pages d))"
  shows "mset (get_pages_by_user_id d user_id) =
           image_mset (page_summary d)
             (mset (filter (\<lambda>p. domain_owned_by d (p_domain_id p) user_id) (pages d))) \<and>
         sorted (map ps_hierarchy (get_pages_by_user_id d user_id))"
proof
  show "mset (get_pages_by_user_id d user_id) =
           image_mset (page_summary d)
             (mset (filter (\<lambda>p. domain_owned_by d (p_domain_id p) user_id) (pages d)))"
    unfolding get_pages_by_user_id_eq [OF assms]
    by (simp add: multiset.map_comp comp_def page_summary_def [abs_def])
  show "sorted (map ps_hierarchy (get_pages_by_user_id d user_id))"
    unfolding get_pages_by_user_id_eq [OF assms] by (rule sorted_summaries)
qed

theorem get_pages_by_user_id_witness:
  "distinct (map p_id (pages example_db)) \<and>
   mset (get_pages_by_user_id example_db 7) =
     {#\<lparr>ps_id = ''1'', ps_title = ''Home'', ps_hierarchy = 1, ps_sections = 2\<rparr>,
       \<lparr>ps_id = ''2'', ps_title = ''About'', ps_hierarchy = 0, ps_sections = 0\<rparr>#} \<and>
   sorted (map ps_hierarchy (get_pages_by_user_id example_db 7))"
proof -
  have h: "distinct (map p_id (pages example_db))"
    by (simp add: example_db_def)
  from get_pages_by_user_id_spec [OF h, of 7] h show ?thesis
    by (simp add: example_db_def page_summary_def domain_owned_by_def str_def str_nat.simps
        digit_char_def)
qed

text \<open>The example of the specification, evaluated: page 2 comes first, with count 0.\<close>

lemma get_pages_by_user_id_example:
  "get_pages_by_user_id example_db 7 =
     [\<lparr>ps_id = ''2'', ps_title = ''About'', ps_hierarchy = 0, ps_sections = 0\<rparr>,
      \<lparr>ps_id = ''1'', ps_title = ''Home'', ps_hierarchy = 1, ps_sections = 2\<rparr>]"
  by code_simp

subsection \<open>Creating sections\<close>

lemma create_section_empty_type:
  "\<not> truthy_str (sc_type sec) \<Longrightarrow>
   create_section d sec page_id = (d, Inl InvalidArgument_section)"
  by (simp add: create_section_def Let_def)

lemma create_section_types:
  "\<forall>s \<in> set (sections d). truthy_str (s_type s) \<Longrightarrow>
   \<forall>s \<in> set (sections (fst (create_section d sec page_id))). truthy_str (s_type s)"
  by (auto simp: create_section_def Let_def)

lemma create_sections_types:
  "\<forall>s \<in> set (sections d). truthy_str (s_type s) \<Longrightarrow>
   \<forall>s \<in> set (sections (fst (create_sections d secs page_id))). truthy_str (s_type s)"
proof (induction secs arbitrary: d)
  case Nil
  then show ?case by simp
next
  case (Cons sec secs)
  obtain d' r where step1: "create_section d sec (Some page_id) = (d', r)"
    by (cases "create_section d sec (Some page_id)")
  from create_section_types [OF Cons.prems, of sec "Some page_id"] step1
  have d': "\<forall>s \<in> set (sections d'). truthy_str (s_type s)" by simp
  show ?case
  proof (cases r)
    case (Inl e)
    with step1 d' show ?thesis by simp
  next
    case (Inr x)
    with step1 Cons.IH [OF d'] show ?thesis by simp
  qed
qed

lemma create_page_types:
  assumes "\<forall>s \<in> set (sections d). truthy_str (s_type s)"
  shows "\<forall>s \<in> set (sections (fst (create_page d page))). truthy_str (s_type s)"
proof -
  define d1 where "d1 = d\<lparr>pages := pages d @
     [\<lparr>p_id = next_id (map p_id (pages d)), p_domain_id = pc_domain_id page,
       p_title = pc_title page, p_hierarchy = pc_hierarchy page\<rparr>]\<rparr>"
  from assms have "\<forall>s \<in> set (sections d1). truthy_str (s_type s)"
    by (simp add: d1_def)
  from create_sections_types [OF this]
  have "\<forall>s \<in> set (sections (fst (create_sections d1 (pc_sections page)
      (next_id (map p_id (pages d)))))). truthy_str (s_type s)" .
  then show ?thesis
    by (simp add: create_page_def Let_def d1_def split: prod.splits sum.splits)
qed

lemma step_types:
  assumes "\<forall>s \<in> set (sections d). truthy_str (s_type s)"
  shows "\<forall>s \<in> set (sections (step B d c)). truthy_str (s_type s)"
proof (cases c)
  case (Create_page page)
  with create_page_types [OF assms] show ?thesis by simp
next
  case (Create_section sec page_id)
  with create_section_types [OF assms] show ?thesis by simp
qed (use assms in \<open>auto simp: create_user_def change_password_def create_domain_def
       create_seo_def create_media_def delete_media_def update_media_def Let_def
       split: option.splits if_splits\<close>)

lemma foldl_step_types:
  "\<forall>s \<in> set (sections d). truthy_str (s_type s) \<Longrightarrow>
   \<forall>s \<in> set (sections (foldl (step B) d calls)). truthy_str (s_type s)"
proof (induction calls arbitrary: d)
  case Nil
  then show ?case by simp
next
  case (Cons c calls)
  from Cons.IH [OF step_types [OF Cons.prems]] show ?case by simp
qed

text \<open>
  C6. When the type of the input is empty (or missing), \<open>create_section\<close> raises the
  exception "Section type is required" and returns the store it was given: no row is
  added. Consequently, in every store that the functions of the module build from the
  empty store, every section has a non-empty type.
\<close>

theorem create_section_type_required:
  "(\<not> truthy_str (sc_type sec) \<longrightarrow>
      create_section d sec page_id = (d, Inl InvalidArgument_section)) \<and>
   (\<forall>s \<in> set (sections (run B calls)). truthy_str (s_type s))"
proof
  show "\<not> truthy_str (sc_type sec) \<longrightarrow>
      create_section d sec page_id = (d, Inl InvalidArgument_section)"
    by (simp add: create_section_empty_type)
  have "\<forall>s \<in> set (sections empty_db). truthy_str (s_type s)"
    by (simp add: empty_db_def)
  then show "\<forall>s \<in> set (sections (run B calls)). truthy_str (s_type s)"
    unfolding run_def by (rule foldl_step_types)
qed

theorem create_section_type_required_witness:
  "\<not> truthy_str (sc_type \<lparr>sc_page_id = Some 1, sc_type = Some [], sc_title = Some ''Empty''\<rparr>) \<and>
   create_section example_db \<lparr>sc_page_id = Some 1, sc_type = Some [], sc_title = Some ''Empty''\<rparr> None =
     (example_db, Inl InvalidArgument_section) \<and>
   sections (run toy_bcrypt
      [Create_section \<lparr>sc_page_id = None, sc_type = None, sc_title = Some ''None''\<rparr> (Some 1),
       Create_page \<lparr>pc_domain_id = 1, pc_title = ''Home'', pc_hierarchy = 0,
          pc_sections = [\<lparr>sc_page_id = None, sc_type = Some ''hero'', sc_title = Some ''Top''\<rparr>,
                         \<lparr>sc_page_id = None, sc_type = Some [], sc_title = Some ''Empty''\<rparr>,
                         \<lparr>sc_page_id = None, sc_type = Some ''text'', sc_title = Some ''Late''\<rparr>]\<rparr>]) =
     [\<lparr>s_id = 1, s_page_id = Some 1, s_type = Some ''hero'', s_title = Some ''Top''\<rparr>]"
  using create_section_type_required [of
      "\<lparr>sc_page_id = Some 1, sc_type = Some [], sc_title = Some ''Empty''\<rparr>" example_db None toy_bcrypt
      "[Create_section \<lparr>sc_page_id = None, sc_type = None, sc_title = Some ''None''\<rparr> (Some 1),
       Create_page \<lparr>pc_domain_id = 1, pc_title = ''Home'', pc_hierarchy = 0,
          pc_sections = [\<lparr>sc_page_id = None, sc_type = Some ''hero'', sc_title = Some ''Top''\<rparr>,
                         \<lparr>sc_page_id = None, sc_type = Some [], sc_title = Some ''Empty''\<rparr>,
                         \<lparr>sc_page_id = None, sc_type = Some ''text'', sc_title = Some ''Late''\<rparr>]\<rparr>]"]
  by (simp add: run_def empty_db_def create_page_def create_section_def truthy_str_def
      truthy_int_def next_id_def Let_def)

text \<open>
  C8 (as amended). For an input with a non-empty type and a given page id other than 0,
  \<open>create_section\<close> appends one section whose \<open>page_id\<close> is the given one, whatever
  the input carried, and returns it.
\<close>

theorem create_section_page_id_override:
  assumes "page_id \<noteq> 0" and "truthy_str (sc_type sec)"
  shows "create_section d sec (Some page_id) =
           (d\<lparr>sections := sections d @
                [\<lparr>s_id = next_id (map s_id (sections d)), s_page_id = Some page_id,
                  s_type = sc_type sec, s_title = sc_title sec\<rparr>]\<rparr>,
            Inr \<lparr>s_id = next_id (map s_id (sections d)), s_page_id = Some page_id,
                 s_type = sc_type sec, s_title = sc_title sec\<rparr>)"
  using assms by (simp add: create_section_def truthy_int_def Let_def)

theorem create_section_page_id_override_witness:
  "(2::int) \<noteq> 0 \<and>
   truthy_str (sc_type \<lparr>sc_page_id = Some 5, sc_type = Some ''hero'', sc_title = Some ''Top''\<rparr>) \<and>
   create_section example_db
       \<lparr>sc_page_id = Some 5, sc_type = Some ''hero'', sc_title = Some ''Top''\<rparr> (Some 2) =
     (example_db\<lparr>sections := sections example_db @
         [\<lparr>s_id = 4, s_page_id = Some 2, s_type = Some ''hero'', s_title = Some ''Top''\<rparr>]\<rparr>,
      Inr \<lparr>s_id = 4, s_page_id = Some 2, s_type = Some ''hero'', s_title = Some ''Top''\<rparr>)"
proof -
  have h1: "(2::int) \<noteq> 0" by simp
  have h2: "truthy_str (sc_type \<lparr>sc_page_id = Some 5, sc_type = Some ''hero'', sc_title = Some ''Top''\<rparr>)"
    by (simp add: truthy_str_def)
  from create_section_page_id_override [OF h1 h2, of example_db] h2 show ?thesis
    by (simp add: example_db_def next_id_def)
qed

text \<open>
  The claim as stated fails for the page id 0: the guard \<open>if page_id:\<close> does not hold
  for 0, and the section keeps the page id of the input (here 5).
\<close>

theorem create_section_page_id_zero_counterexample:
  "create_section empty_db
       \<lparr>sc_page_id = Some 5, sc_type = Some ''hero'', sc_title = Some ''Top''\<rparr> (Some 0) =
     (empty_db\<lparr>sections :=
         [\<lparr>s_id = 1, s_page_id = Some 5, s_type = Some ''hero'', s_title = Some ''Top''\<rparr>]\<rparr>,
      Inr \<lparr>s_id = 1, s_page_id = Some 5, s_type = Some ''hero'', s_title = Some ''Top''\<rparr>) \<and>
   s_page_id \<lparr>s_id = 1, s_page_id = Some 5, s_type = Some ''hero'', s_title = Some ''Top''\<rparr> \<noteq> Some 0"
  by (simp add: create_section_def truthy_int_def truthy_str_def Let_def empty_db_def next_id_def)

subsection \<open>Deleting and updating media\<close>

text \<open>
  C7. \<open>delete_media\<close> raises the exception "Media item not found" (status 404) exactly
  when no media record has the id. When the lookup finds a record, the records with that
  id are removed from the store, the record found is returned, it is no longer stored,
  and the lookup by that id on the new store finds nothing.
\<close>

theorem delete_media_spec:
  "(snd (delete_media d media_id) = Inl NotFound \<longleftrightarrow>
      \<not> (\<exists>m \<in> set (medias d). m_id m = media_id)) \<and>
   (\<forall>media_item. media_by_id d media_id = Some media_item \<longrightarrow>
      (\<exists>d'. delete_media d media_id = (d', Inr media_item) \<and>
         medias d' = filter (\<lambda>m. m_id m \<noteq> media_id) (medias d) \<and>
         media_item \<notin> set (medias d') \<and>
         media_by_id d' media_id = None))"
proof (cases "media_by_id d media_id")
  case None
  then have "\<not> (\<exists>m \<in> set (medias d). m_id m = media_id)"
    by (simp add: media_by_id_def first_None_iff)
  with None show ?thesis
    by (simp add: delete_media_def)
next
  case (Some media_item)
  from first_SomeD [OF Some [unfolded media_by_id_def]]
  have found: "media_item \<in> set (medias d)" "m_id media_item = media_id"
    by simp_all
  then have "\<exists>m \<in> set (medias d). m_id m = media_id" by blast
  with Some found show ?thesis
    by (simp add: delete_media_def media_by_id_def first_None_iff)
qed

theorem delete_media_witness:
  "delete_media example_db 1 =
     (example_db\<lparr>medias :=
         [\<lparr>m_id = 2, m_title = ''Banner'', m_file_url = ''/banner.png'', m_type = ''image'',
           m_domain_id = 1, m_section_id = None, m_uploaded_by = 7, m_text = ''banner''\<rparr>]\<rparr>,
      Inr \<lparr>m_id = 1, m_title = ''Logo'', m_file_url = ''/logo.png'', m_type = ''image'',
           m_domain_id = 1, m_section_id = Some 1, m_uploaded_by = 7, m_text = ''logo''\<rparr>) \<and>
   media_by_id (fst (delete_media example_db 1)) 1 = None \<and>
   delete_media example_db 9 = (example_db, Inl NotFound)"
  using delete_media_spec [of example_db 1] delete_media_spec [of example_db 9]
  by (simp add: delete_media_def media_by_id_def first_def example_db_def)

lemma first_map_update:
  "first (\<lambda>m. m_id m = i) ms = Some x \<Longrightarrow>
   x\<lparr>m_title := t, m_text := tx, m_section_id := sid\<rparr> \<in>
     set (map (\<lambda>m. if m_id m = i then m\<lparr>m_title := t, m_text := tx, m_section_id := sid\<rparr>
                    else m) ms)"
  by (auto dest!: first_SomeD)

text \<open>
  C9. When the lookup by the id finds a record, \<open>update_media\<close> returns that record
  with its title, text and section id replaced by the arguments. In the new store the
  tables other than media are unchanged; the media table has the same length; a record
  with another id is unchanged at its position; a record with the id has the three
  fields replaced and its id, file url, type, domain id and uploader unchanged.
\<close>

theorem update_media_frame:
  assumes "media_by_id d media_id = Some media_item"
  shows "\<exists>d'. update_media d media_id title text' section_id =
            (d', Inr (media_item\<lparr>m_title := title, m_text := text',
                                 m_section_id := section_id\<rparr>)) \<and>
          users d' = users d \<and> domains d' = domains d \<and> pages d' = pages d \<and>
          sections d' = sections d \<and> seos d' = seos d \<and>
          length (medias d') = length (medias d) \<and>
          (\<forall>i < length (medias d).
             (m_id (medias d ! i) \<noteq> media_id \<longrightarrow> medias d' ! i = medias d ! i) \<and>
             (m_id (medias d ! i) = media_id \<longrightarrow>
                medias d' ! i = (medias d ! i)\<lparr>m_title := title, m_text := text',
                                                m_section_id := section_id\<rparr> \<and>
                m_id (medias d' ! i) = m_id (medias d ! i) \<and>
                m_file_url (medias d' ! i) = m_file_url (medias d ! i) \<and>
                m_type (medias d' ! i) = m_type (medias d ! i) \<and>
                m_domain_id (medias d' ! i) = m_domain_id (medias d ! i) \<and>
                m_uploaded_by (medias d' ! i) = m_uploaded_by (medias d ! i)))"
proof -
  from first_SomeD [OF assms [unfolded media_by_id_def]]
  have "m_id media_item = media_id" by simp
  with assms show ?thesis
    by (simp add: update_media_def Let_def)
qed

theorem update_media_frame_witness:
  "media_by_id example_db 2 =
     Some \<lparr>m_id = 2, m_title = ''Banner'', m_file_url = ''/banner.png'', m_type = ''image'',
           m_domain_id = 1, m_section_id = None, m_uploaded_by = 7, m_text = ''banner''\<rparr> \<and>
   update_media example_db 2 ''Header'' ''wide header'' (Some 2) =
     (example_db\<lparr>medias :=
        [\<lparr>m_id = 1, m_title = ''Logo'', m_file_url = ''/logo.png'', m_type = ''image'',
          m_domain_id = 1, m_section_id = Some 1, m_uploaded_by = 7, m_text = ''logo''\<rparr>,
         \<lparr>m_id = 2, m_title = ''Header'', m_file_url = ''/banner.png'', m_type = ''image'',
          m_domain_id = 1, m_section_id = Some 2, m_uploaded_by = 7, m_text = ''wide header''\<rparr>]\<rparr>,
      Inr \<lparr>m_id = 2, m_title = ''Header'', m_file_url = ''/banner.png'', m_type = ''image'',
           m_domain_id = 1, m_section_id = Some 2, m_uploaded_by = 7, m_text = ''wide header''\<rparr>)"
proof -
  have h: "media_by_id example_db 2 =
     Some \<lparr>m_id = 2, m_title = ''Banner'', m_file_url = ''/banner.png'', m_type = ''image'',
           m_domain_id = 1, m_section_id = None, m_uploaded_by = 7, m_text = ''banner''\<rparr>"
    by (simp add: media_by_id_def first_def example_db_def)
  from update_media_frame [OF h, of "''Header''" "''wide header''" "Some 2"] h show ?thesis
    by (simp add: update_media_def media_by_id_def first_def example_db_def Let_def)
qed

text \<open>
  C10. The only exception of \<open>update_media\<close> is "Media item not found", raised when
  the lookup finds nothing; its arguments are not validated. When the lookup finds a
  record, the update with the empty title succeeds and the new store holds the returned
  record, whose title is empty, while \<open>create_media\<close> rejects an input with the empty
  title.
\<close>

theorem update_media_no_validation:
  "(\<forall>e. snd (update_media d media_id title text' section_id) = Inl e \<longrightarrow>
        e = NotFound \<and> media_by_id d media_id = None) \<and>
   (\<forall>media_item. media_by_id d media_id = Some media_item \<longrightarrow>
      (\<exists>d' r. update_media d media_id [] text' section_id = (d', Inr r) \<and>
         m_title r = [] \<and> r \<in> set (medias d'))) \<and>
   (mc_title media = [] \<longrightarrow> create_media d media = (d, Inl InvalidArgument_media))"
proof (intro conjI allI impI)
  fix e assume "snd (update_media d media_id title text' section_id) = Inl e"
  then show "e = NotFound" "media_by_id d media_id = None"
    by (auto simp: update_media_def Let_def split: option.splits)
next
  fix media_item assume found: "media_by_id d media_id = Some media_item"
  from first_SomeD [OF found [unfolded media_by_id_def]]
  have "m_id media_item = media_id" by simp
  with found first_map_update [OF found [unfolded media_by_id_def],
      where t = "[]" and tx = text' and sid = section_id]
  show "\<exists>d' r. update_media d media_id [] text' section_id = (d', Inr r) \<and>
         m_title r = [] \<and> r \<in> set (medias d')"
    by (simp add: update_media_def Let_def)
next
  assume "mc_title media = []"
  then show "create_media d media = (d, Inl InvalidArgument_media)"
    by (simp add: create_media_def)
qed

theorem update_media_no_validation_witness:
  "update_media example_db 2 [] ''b'' None =
     (example_db\<lparr>medias :=
        [\<lparr>m_id = 1, m_title = ''Logo'', m_file_url = ''/logo.png'', m_type = ''image'',
          m_domain_id = 1, m_section_id = Some 1, m_uploaded_by = 7, m_text = ''logo''\<rparr>,
         \<lparr>m_id = 2, m_title = [], m_file_url = ''/banner.png'', m_type = ''image'',
          m_domain_id = 1, m_section_id = None, m_uploaded_by = 7, m_text = ''b''\<rparr>]\<rparr>,
      Inr \<lparr>m_id = 2, m_title = [], m_file_url = ''/banner.png'', m_type = ''image'',
           m_domain_id = 1, m_section_id = None, m_uploaded_by = 7, m_text = ''b''\<rparr>) \<and>
   update_media example_db 9 [] ''b'' None = (example_db, Inl NotFound) \<and>
   create_media example_db
       \<lparr>mc_title = [], mc_file_url = ''/a.png'', mc_type = ''image'', mc_domain_id = 1,
        mc_section_id = None, mc_uploaded_by = 7, mc_text = ''a''\<rparr> =
     (example_db, Inl InvalidArgument_media)"
proof -
  let ?m = "\<lparr>mc_title = [], mc_file_url = ''/a.png'', mc_type = ''image'', mc_domain_id = 1,
        mc_section_id = None, mc_uploaded_by = 7, mc_text = ''a''\<rparr>"
  have found: "media_by_id example_db 2 =
     Some \<lparr>m_id = 2, m_title = ''Banner'', m_file_url = ''/banner.png'', m_type = ''image'',
           m_domain_id = 1, m_section_id = None, m_uploaded_by = 7, m_text = ''banner''\<rparr>"
    by (simp add: media_by_id_def first_def example_db_def)
  have absent: "media_by_id example_db 9 = None"
    by (simp add: media_by_id_def first_def example_db_def)
  from update_media_no_validation [of example_db 2 "[]" "''b''" None ?m] found
  have created: "create_media example_db ?m = (example_db, Inl InvalidArgument_media)"
    by simp
  have updated: "update_media example_db 2 [] ''b'' None =
     (example_db\<lparr>medias :=
        [\<lparr>m_id = 1, m_title = ''Logo'', m_file_url = ''/logo.png'', m_type = ''image'',
          m_domain_id = 1, m_section_id = Some 1, m_uploaded_by = 7, m_text = ''logo''\<rparr>,
         \<lparr>m_id = 2, m_title = [], m_file_url = ''/banner.png'', m_type = ''image'',
          m_domain_id = 1, m_section_id = None, m_uploaded_by = 7, m_text = ''b''\<rparr>]\<rparr>,
      Inr \<lparr>m_id = 2, m_title = [], m_file_url = ''/banner.png'', m_type = ''image'',
           m_domain_id = 1, m_section_id = None, m_uploaded_by = 7, m_text = ''b''\<rparr>)"
    unfolding update_media_def found by (simp add: example_db_def)
  have missing: "update_media example_db 9 [] ''b'' None = (example_db, Inl NotFound)"
    unfolding update_media_def absent by simp
  from updated missing created show ?thesis by simp
qed

text \<open>
  A store with an empty media title is built by the module's own functions, in contrast
  with the types of sections.
\<close>

lemma update_media_empty_title_reachable:
  "map m_title (medias (run toy_bcrypt
      [Create_media \<lparr>mc_title = ''A'', mc_file_url = ''/a.png'', mc_type = ''image'',
          mc_domain_id = 1, mc_section_id = None, mc_uploaded_by = 7, mc_text = ''a''\<rparr>,
       Update_media 1 [] ''b'' None])) = [[]]"
  by (simp add: run_def empty_db_def create_media_def update_media_def
      media_by_id_def first_def next_id_def Let_def)

end
